theory Spec2Isabelle
  imports Main "HOL-Library.Word" "HOL-Library.Sublist"
begin

unbundle bit_operations_syntax

section \<open>Strings\<close>

text \<open>
  A JavaScript string is a sequence of UTF-16 code units. \<open>charCodeAt\<close> reads one code
  unit, or \<open>NaN\<close> (here \<open>None\<close>) outside the string. The bitwise operators \<open>^\<close> and
  \<open>|\<close> work on 32-bit integers and read \<open>NaN\<close> as 0.
\<close>

type_synonym code_unit = "16 word"
type_synonym jsstring = "code_unit list"
type_synonym int32 = "32 word"
type_synonym byte = "8 word"

definition js :: "string \<Rightarrow> jsstring" where
  "js s = map (\<lambda>c. word_of_nat (of_char c)) s"

definition charCodeAt :: "jsstring \<Rightarrow> nat \<Rightarrow> code_unit option" where
  "charCodeAt s i = (if i < length s then Some (s ! i) else None)"

definition ToInt32 :: "code_unit option \<Rightarrow> int32" where
  "ToInt32 v = (case v of None \<Rightarrow> 0 | Some c \<Rightarrow> ucast c)"

section \<open>timingSafeEqual (src/index.ts, lines 99 to 110)\<close>

text \<open>
  The \<open>for\<close> loop of \<open>timingSafeEqual\<close>, on its two variables \<open>i\<close> and \<open>result\<close>. It
  returns both as they are when the loop is left; \<open>i\<close> starts at 0 and grows by one
  with each run of the body, so its final value is the number of runs.
\<close>

function timingSafeEqual_loop :: "jsstring \<Rightarrow> jsstring \<Rightarrow> nat \<Rightarrow> int32 \<Rightarrow> nat \<times> int32" where
  "timingSafeEqual_loop a b i result =
     (if i < length a
      then timingSafeEqual_loop a b (i + 1)
             (result OR (ToInt32 (charCodeAt a i) XOR ToInt32 (charCodeAt b i)))
      else (i, result))"
  by pat_completeness auto
termination
  by (relation "measure (\<lambda>(a, b, i, result). length a - i)") auto

declare timingSafeEqual_loop.simps [simp del]

text \<open>
  The whole function, with the loop variables at the return: \<open>(0, 0)\<close> when the length
  check returns before the loop is entered.
\<close>

definition timingSafeEqual_run :: "jsstring \<Rightarrow> jsstring \<Rightarrow> bool \<times> nat \<times> int32" where
  "timingSafeEqual_run a b =
     (if length a \<noteq> length b then (False, 0, 0)
      else let (i, result) = timingSafeEqual_loop a b 0 0 in (result = 0, i, result))"

definition timingSafeEqual :: "jsstring \<Rightarrow> jsstring \<Rightarrow> bool" where
  "timingSafeEqual a b = fst (timingSafeEqual_run a b)"

text \<open>The value the loop accumulates when it visits every pair of code units.\<close>

definition xor_accumulate :: "jsstring \<Rightarrow> jsstring \<Rightarrow> int32" where
  "xor_accumulate a b = fold (\<lambda>(x, y) r. r OR (ucast x XOR ucast y)) (zip a b) 0"

section \<open>Hex digest (src/index.ts, lines 88 to 90)\<close>

text \<open>
  \<open>b.toString(16)\<close> writes a number in base 16 with lower-case digits and no leading
  zero; \<open>padStart(2, "0")\<close> fills it up to two code units; \<open>join("")\<close> concatenates.
\<close>

definition hex_digit :: "nat \<Rightarrow> code_unit" where
  "hex_digit d = js ''0123456789abcdef'' ! d"

fun toString16 :: "nat \<Rightarrow> jsstring" where
  "toString16 n =
     (if n < 16 then [hex_digit n] else toString16 (n div 16) @ [hex_digit (n mod 16)])"

declare toString16.simps [simp del]

definition padStart :: "jsstring \<Rightarrow> nat \<Rightarrow> jsstring \<Rightarrow> jsstring" where
  "padStart s targetLength padString =
     (if targetLength \<le> length s \<or> padString = [] then s
      else take (targetLength - length s)
             (concat (replicate (targetLength - length s) padString)) @ s)"

definition toHex :: "byte list \<Rightarrow> jsstring" where
  "toHex bytes = concat (map (\<lambda>b. padStart (toString16 (unat b)) 2 (js ''0'')) bytes)"

section \<open>String.prototype.replace with a string pattern\<close>

text \<open>
  \<open>s.replace(pattern, replacement)\<close> with a string pattern replaces the first occurrence
  of the pattern, wherever it is, and leaves a string without the pattern as it is. (The
  source's replacement is the empty string, so no \<open>$\<close> pattern is involved.)
\<close>

fun String_replace :: "jsstring \<Rightarrow> jsstring \<Rightarrow> jsstring \<Rightarrow> jsstring" where
  "String_replace [] pattern replacement = (if pattern = [] then replacement else [])"
| "String_replace (c # cs) pattern replacement =
     (if prefix pattern (c # cs) then replacement @ drop (length pattern) (c # cs)
      else c # String_replace cs pattern replacement)"

section \<open>The platform\<close>

text \<open>
  The worker calls functions of its runtime that are no part of the repository:
  \<open>TextEncoder.encode\<close>, \<open>crypto.subtle.importKey\<close> with \<open>crypto.subtle.sign\<close>
  (HMAC-SHA256 of a message under a key), \<open>JSON.parse\<close> (\<open>None\<close> when it throws a
  \<open>SyntaxError\<close>), \<open>JSON.stringify\<close> and \<open>fetch\<close> (\<open>None\<close> when the promise is
  rejected, which \<open>fetch\<close> does with a \<open>TypeError\<close>). They are parameters of the
  model; the type \<open>'n\<close> stands for the numbers of JavaScript.

  The answer of \<open>fetch\<close> has a status and a body. \<open>resp.text()\<close> reads the body; its
  promise is rejected when the body cannot be read (the stream of the body fails), and
  \<open>ds_text\<close> is \<open>None\<close> then. Nothing in \<open>handle\<close> catches a rejection: the fault
  \<open>TextRejected\<close> is the rejection of \<open>resp.text()\<close> on line 181.
\<close>

datatype 'n jsvalue =
  JNull
  | JBool bool
  | JNumber 'n
  | JString jsstring
  | JArray "'n jsvalue list"
  | JObject "(jsstring \<times> 'n jsvalue) list"

datatype fault = SyntaxError | TypeError | TextRejected

record outbound =
  ob_url :: jsstring
  ob_method :: jsstring
  ob_headers :: "(jsstring \<times> jsstring) list"
  ob_body :: jsstring

record downstream =
  ds_status :: nat
  ds_text :: "jsstring option"

text \<open>\<open>Response.ok\<close> of the Fetch standard: the status is in the range 200 to 299.\<close>

definition ds_ok :: "downstream \<Rightarrow> bool" where
  "ds_ok resp = (200 \<le> ds_status resp \<and> ds_status resp \<le> 299)"

record 'n platform =
  TextEncoder_encode :: "jsstring \<Rightarrow> byte list"
  hmac_sha256 :: "byte list \<Rightarrow> byte list \<Rightarrow> byte list"
  JSON_parse :: "jsstring \<Rightarrow> 'n jsvalue option"
  JSON_stringify :: "'n jsvalue \<Rightarrow> jsstring"
  fetch :: "outbound \<Rightarrow> downstream option"

text \<open>What a run does to the outside, in the order of the calls.\<close>

datatype effect = ConsoleError jsstring | JsonParse jsstring | Fetch outbound

fun is_Fetch :: "effect \<Rightarrow> bool" where
  "is_Fetch (Fetch call) = True"
| "is_Fetch other = False"

fun is_ConsoleError :: "effect \<Rightarrow> bool" where
  "is_ConsoleError (ConsoleError message) = True"
| "is_ConsoleError other = False"

fun is_JsonParse :: "effect \<Rightarrow> bool" where
  "is_JsonParse (JsonParse text) = True"
| "is_JsonParse other = False"

section \<open>verifySignature (src/index.ts, lines 58 to 94)\<close>

definition verifySignature ::
  "'n platform \<Rightarrow> jsstring \<Rightarrow> jsstring \<Rightarrow> jsstring \<Rightarrow> bool \<times> effect list" where
  "verifySignature plat payload signature secret =
     (if secret = []
      then (False, [ConsoleError (js ''GITHUB_WEBHOOK_SECRET is not configured'')])
      else
        let signatureHash = String_replace signature (js ''sha256='') [];
            signatureBytes = hmac_sha256 plat (TextEncoder_encode plat secret)
                               (TextEncoder_encode plat payload);
            computedHash = toHex signatureBytes
        in (timingSafeEqual computedHash signatureHash, []))"

text \<open>
  \<open>generateSignature\<close> of the test suite: the header value of a sender that holds the
  secret.
\<close>

definition generateSignature :: "'n platform \<Rightarrow> jsstring \<Rightarrow> jsstring \<Rightarrow> jsstring" where
  "generateSignature plat payload secret =
     (let signatureBytes = hmac_sha256 plat (TextEncoder_encode plat secret)
                             (TextEncoder_encode plat payload);
          hash = toHex signatureBytes
      in js ''sha256='' @ hash)"

section \<open>handle (src/index.ts, lines 112 to 187)\<close>

record request =
  rq_method :: jsstring
  rq_headers :: "jsstring \<rightharpoonup> jsstring"
  rq_text :: jsstring

record Env =
  AUTOMATION_REPO_TRIGGER_TOKEN :: jsstring
  GITHUB_WEBHOOK_SECRET :: jsstring

record response =
  status :: nat
  body :: jsstring

text \<open>\<open>new Response(body, { status })\<close>; the status is 200 when none is given.\<close>

definition Response :: "jsstring \<Rightarrow> nat \<Rightarrow> response" where
  "Response text code = \<lparr>status = code, body = text\<rparr>"

text \<open>A number in a template literal: the decimal digits of a status code.\<close>

fun toString10 :: "nat \<Rightarrow> jsstring" where
  "toString10 n =
     (if n < 10 then [js ''0123456789'' ! n]
      else toString10 (n div 10) @ [js ''0123456789'' ! (n mod 10)])"

declare toString10.simps [simp del]

definition dispatchBody :: "jsstring \<Rightarrow> 'n jsvalue \<Rightarrow> 'n jsvalue" where
  "dispatchBody event payload =
     JObject [(js ''event_type'', JString (js ''leaderboard-bot-installed'')),
              (js ''client_payload'',
                 JObject [(js ''github_event'', JString event), (js ''payload'', payload)])]"

definition dispatch_url :: jsstring where
  "dispatch_url =
     (let owner = js ''rithviknishad''; repo = js ''leaderboard-bot''
      in js ''https://api.github.com/repos/'' @ owner @ js ''/'' @ repo @ js ''/dispatches'')"

text \<open>The arguments of the call of \<open>fetch\<close> (lines 169 to 178).\<close>

definition dispatch_call :: "'n platform \<Rightarrow> jsstring \<Rightarrow> jsstring \<Rightarrow> 'n jsvalue \<Rightarrow> outbound" where
  "dispatch_call plat token event payload =
     \<lparr>ob_url = dispatch_url,
      ob_method = js ''POST'',
      ob_headers =
        [(js ''authorization'', js ''token '' @ token),
         (js ''accept'', js ''application/vnd.github+json''),
         (js ''content-type'', js ''application/json''),
         (js ''user-agent'', js ''leaderboard-bot-worker'')],
      ob_body = JSON_stringify plat (dispatchBody event payload)\<rparr>"

definition handle :: "'n platform \<Rightarrow> request \<Rightarrow> Env \<Rightarrow> (fault + response) \<times> effect list" where
  "handle plat req env =
     (if rq_method req \<noteq> js ''POST'' then (Inr (Response (js ''ok'') 200), [])
      else
        let body = rq_text req;
            signature = rq_headers req (js ''x-hub-signature-256'');
            event = rq_headers req (js ''x-github-event'')
        in
        (case event of
          None \<Rightarrow> (Inr (Response (js ''missing x-github-event header'') 400), [])
        | Some event \<Rightarrow>
        if event = [] then (Inr (Response (js ''missing x-github-event header'') 400), [])
        else
        (case signature of
          None \<Rightarrow> (Inr (Response (js ''missing x-hub-signature-256 header'') 401), [])
        | Some signature \<Rightarrow>
        if signature = []
        then (Inr (Response (js ''missing x-hub-signature-256 header'') 401), [])
        else
        let (isValid, log) = verifySignature plat body signature (GITHUB_WEBHOOK_SECRET env)
        in
        if \<not> isValid then (Inr (Response (js ''invalid signature'') 401), log)
        else
        (case JSON_parse plat body of
          None \<Rightarrow> (Inl SyntaxError, log @ [JsonParse body])
        | Some payload \<Rightarrow>
        if event \<notin> set [js ''installation'', js ''installation_repositories'']
        then (Inr (Response (js ''event ignored'') 200), log @ [JsonParse body])
        else
        let token = AUTOMATION_REPO_TRIGGER_TOKEN env in
        if token = []
        then (Inr (Response (js ''missing AUTOMATION_REPO_TRIGGER_TOKEN'') 500),
              log @ [JsonParse body])
        else
        let call = dispatch_call plat token event payload in
        (case fetch plat call of
          None \<Rightarrow> (Inl TypeError, log @ [JsonParse body, Fetch call])
        | Some resp \<Rightarrow>
        if \<not> ds_ok resp
        then
          (case ds_text resp of
            None \<Rightarrow> (Inl TextRejected, log @ [JsonParse body, Fetch call])
          | Some errorText \<Rightarrow>
              (Inr (Response (js ''dispatch failed: '' @ toString10 (ds_status resp)) 500),
               log @ [JsonParse body, Fetch call,
                      ConsoleError (js ''GitHub API error: '' @ toString10 (ds_status resp)
                                    @ js '' - '' @ errorText)]))
        else (Inr (Response (js ''dispatched: '' @ toString10 (ds_status resp)) 200),
              log @ [JsonParse body, Fetch call]))))))"

text \<open>
  The condition under which \<open>handle\<close> goes on after line 137: the method is POST, the
  two headers are there and not empty, and \<open>verifySignature\<close> has returned true.
\<close>

definition authenticated :: "'n platform \<Rightarrow> request \<Rightarrow> Env \<Rightarrow> bool" where
  "authenticated plat req env =
     (rq_method req = js ''POST'' \<and>
      (case rq_headers req (js ''x-github-event'') of
         None \<Rightarrow> False
       | Some event \<Rightarrow>
           event \<noteq> [] \<and>
           (case rq_headers req (js ''x-hub-signature-256'') of
              None \<Rightarrow> False
            | Some signature \<Rightarrow>
                signature \<noteq> [] \<and>
                fst (verifySignature plat (rq_text req) signature (GITHUB_WEBHOOK_SECRET env)))))"

section \<open>A test double of the platform\<close>

text \<open>
  A platform to run the model on concrete requests, in the way the test suite replaces
  \<open>fetch\<close> by a function with a fixed answer. Its keyed hash is 32 bytes long, as a
  SHA-256 digest is, but is no HMAC; its \<open>JSON.parse\<close> knows the texts \<open>{}\<close> and
  \<open>null\<close> and rejects every other text, which is what \<open>JSON.parse\<close> does on the
  texts used below; its \<open>fetch\<close> answers every call with \<open>answer\<close>.
\<close>

definition mock_encode :: "jsstring \<Rightarrow> byte list" where
  "mock_encode s = map ucast s"

definition mock_hmac :: "byte list \<Rightarrow> byte list \<Rightarrow> byte list" where
  "mock_hmac key message = replicate 32 (fold (XOR) (key @ message) 0)"

definition mock_parse :: "jsstring \<Rightarrow> nat jsvalue option" where
  "mock_parse text =
     (if text = js ''{}'' then Some (JObject [])
      else if text = js ''null'' then Some JNull
      else None)"

fun commas :: "jsstring list \<Rightarrow> jsstring" where
  "commas [] = []"
| "commas [x] = x"
| "commas (x # y # ys) = x @ js '','' @ commas (y # ys)"

definition quoted :: "jsstring \<Rightarrow> jsstring" where
  "quoted s = [34] @ s @ [34]"

fun mock_stringify :: "nat jsvalue \<Rightarrow> jsstring" where
  "mock_stringify JNull = js ''null''"
| "mock_stringify (JBool b) = (if b then js ''true'' else js ''false'')"
| "mock_stringify (JNumber n) = toString10 n"
| "mock_stringify (JString s) = quoted s"
| "mock_stringify (JArray vs) = js ''['' @ commas (map mock_stringify vs) @ js '']''"
| "mock_stringify (JObject kvs) =
     js ''{'' @ commas (map (\<lambda>(k, v). quoted k @ js '':'' @ mock_stringify v) kvs) @ js ''}''"

definition mock_platform :: "downstream option \<Rightarrow> nat platform" where
  "mock_platform answer =
     \<lparr>TextEncoder_encode = mock_encode,
      hmac_sha256 = mock_hmac,
      JSON_parse = mock_parse,
      JSON_stringify = mock_stringify,
      fetch = (\<lambda>call. answer)\<rparr>"

text \<open>
  The \<open>fetch\<close> of the test suite answers with the status 204 and no body, which
  \<open>resp.text()\<close> reads as the empty string.
\<close>

definition test_platform :: "nat platform" where
  "test_platform = mock_platform (Some \<lparr>ds_status = 204, ds_text = Some []\<rparr>)"

text \<open>
  The requests and the environment of the test suite: a POST request with the two headers
  and a body, and the secrets of its \<open>beforeEach\<close>.
\<close>

definition test_request :: "jsstring \<Rightarrow> jsstring \<Rightarrow> jsstring \<Rightarrow> request" where
  "test_request event signature text =
     \<lparr>rq_method = js ''POST'',
      rq_headers = [js ''x-github-event'' \<mapsto> event, js ''x-hub-signature-256'' \<mapsto> signature],
      rq_text = text\<rparr>"

definition test_env :: Env where
  "test_env =
     \<lparr>AUTOMATION_REPO_TRIGGER_TOKEN = js ''test-token-123'',
      GITHUB_WEBHOOK_SECRET = js ''test-webhook-secret''\<rparr>"

section \<open>Properties of timingSafeEqual\<close>

lemma timingSafeEqual_loop_fold:
  "i \<le> length a \<Longrightarrow> length a = length b \<Longrightarrow>
   timingSafeEqual_loop a b i r =
     (length a, fold (\<lambda>(x, y) r. r OR (ucast x XOR ucast y)) (zip (drop i a) (drop i b)) r)"
proof (induction a b i r rule: timingSafeEqual_loop.induct)
  case (1 a b i result)
  show ?case
  proof (cases "i < length a")
    case True
    then have da: "drop i a = a ! i # drop (Suc i) a"
      by (simp add: Cons_nth_drop_Suc)
    from True "1.prems" have db: "drop i b = b ! i # drop (Suc i) b"
      by (simp add: Cons_nth_drop_Suc)
    from True "1.prems" have il: "i < length b" by simp
    from True "1.prems" have "timingSafeEqual_loop a b (i + 1)
        (result OR (ToInt32 (charCodeAt a i) XOR ToInt32 (charCodeAt b i))) =
      (length a, fold (\<lambda>(x, y) r. r OR (ucast x XOR ucast y))
         (zip (drop (i + 1) a) (drop (i + 1) b))
         (result OR (ToInt32 (charCodeAt a i) XOR ToInt32 (charCodeAt b i))))"
      by (intro "1.IH") simp_all
    with True il show ?thesis
      by (subst timingSafeEqual_loop.simps) (simp add: da db charCodeAt_def ToInt32_def)
  next
    case False
    with "1.prems" show ?thesis
      by (subst timingSafeEqual_loop.simps) simp
  qed
qed

lemma timingSafeEqual_loop_all:
  "length a = length b \<Longrightarrow> timingSafeEqual_loop a b 0 0 = (length a, xor_accumulate a b)"
  by (simp add: timingSafeEqual_loop_fold xor_accumulate_def)

lemma ucast_code_unit_inj: "(ucast (x :: code_unit) :: int32) = ucast (y :: code_unit) \<longleftrightarrow> x = y"
proof
  assume h: "(ucast x :: int32) = ucast y"
  have rt: "(ucast (ucast c :: int32) :: code_unit) = c" for c
    by (rule ucast_up_ucast_id) (simp add: is_up)
  from h have "(ucast (ucast x :: int32) :: code_unit) = ucast (ucast y :: int32)"
    by simp
  then show "x = y" by (simp only: rt)
qed simp

lemma word_xor_zero: "(a XOR b :: 'a::len word) = 0 \<longleftrightarrow> a = b"
proof
  assume h: "a XOR b = 0"
  have "a = (a XOR b) XOR b" by (simp add: xor.assoc)
  also have "\<dots> = b" by (simp add: h)
  finally show "a = b" .
qed simp

lemma fold_or_zero:
  "fold (\<lambda>(x, y) r. r OR (ucast x XOR ucast y)) ps (r :: int32) = 0 \<longleftrightarrow>
   r = 0 \<and> list_all (\<lambda>(x :: code_unit, y :: code_unit). x = y) ps"
proof (induction ps arbitrary: r)
  case Nil
  then show ?case by simp
next
  case (Cons p ps)
  obtain x y where p: "p = (x, y)" by (cases p)
  have "(r OR (ucast x XOR ucast y) :: int32) = 0 \<longleftrightarrow> r = 0 \<and> x = y"
    by (simp add: or_eq_0_iff word_xor_zero ucast_code_unit_inj)
  with Cons.IH [of "r OR (ucast x XOR ucast y)"] show ?case
    by (auto simp: p)
qed

lemma list_all_zip_eq:
  "length a = length b \<Longrightarrow> list_all (\<lambda>(x, y). x = y) (zip a b) \<longleftrightarrow> a = b"
  by (induction a b rule: list_induct2) auto

lemma xor_accumulate_zero:
  "length a = length b \<Longrightarrow> xor_accumulate a b = 0 \<longleftrightarrow> a = b"
  by (simp add: xor_accumulate_def fold_or_zero list_all_zip_eq)

lemma timingSafeEqual_iff: "timingSafeEqual a b \<longleftrightarrow> a = b"
proof (cases "length a = length b")
  case True
  then show ?thesis
    by (simp add: timingSafeEqual_def timingSafeEqual_run_def timingSafeEqual_loop_all
        xor_accumulate_zero)
next
  case False
  then show ?thesis
    by (auto simp: timingSafeEqual_def timingSafeEqual_run_def)
qed

text \<open>
  Claim C1. \<open>timingSafeEqual a b\<close> returns true if and only if the two strings are equal.
  When the lengths differ it returns false before the loop is entered (no run of the loop
  body, nothing accumulated). When the lengths are equal, whether the strings are equal
  or not, the loop body runs once for every index below the length, the accumulated value
  is the OR of the XORs of all pairs of code units, and the function returns false exactly
  when that value is not zero.
\<close>

theorem timingSafeEqual_spec:
  "(timingSafeEqual a b \<longleftrightarrow> a = b) \<and>
   (length a \<noteq> length b \<longrightarrow> timingSafeEqual_run a b = (False, 0, 0)) \<and>
   (length a = length b \<longrightarrow>
      timingSafeEqual_run a b = (xor_accumulate a b = 0, length a, xor_accumulate a b) \<and>
      (timingSafeEqual a b = False \<longleftrightarrow> xor_accumulate a b \<noteq> 0))"
proof (intro conjI impI)
  show "timingSafeEqual a b \<longleftrightarrow> a = b"
    by (rule timingSafeEqual_iff)
next
  assume "length a \<noteq> length b"
  then show "timingSafeEqual_run a b = (False, 0, 0)"
    by (simp add: timingSafeEqual_run_def)
next
  assume eq: "length a = length b"
  then show "timingSafeEqual_run a b = (xor_accumulate a b = 0, length a, xor_accumulate a b)"
    by (simp add: timingSafeEqual_run_def timingSafeEqual_loop_all)
  then show "timingSafeEqual a b = False \<longleftrightarrow> xor_accumulate a b \<noteq> 0"
    by (simp add: timingSafeEqual_def)
qed

theorem timingSafeEqual_spec_witness:
  "length (js ''ab'') \<noteq> length (js ''a'') \<and>
   timingSafeEqual_run (js ''ab'') (js ''a'') = (False, 0, 0) \<and>
   length (js ''ab'') = length (js ''ac'') \<and>
   timingSafeEqual_run (js ''ab'') (js ''ac'') = (False, 2, 1) \<and>
   timingSafeEqual_run (js ''ab'') (js ''ab'') = (True, 2, 0)"
  using timingSafeEqual_spec [of "js ''ab''" "js ''a''"]
    timingSafeEqual_spec [of "js ''ab''" "js ''ac''"]
    timingSafeEqual_spec [of "js ''ab''" "js ''ab''"]
  by (simp add: js_def xor_accumulate_def)

section \<open>Properties of String.prototype.replace\<close>

lemma String_replace_prefix:
  "String_replace (pattern @ rest) pattern replacement = replacement @ rest"
proof (cases "pattern @ rest")
  case Nil
  then show ?thesis by simp
next
  case (Cons c cs)
  have "prefix pattern (c # cs)"
    unfolding Cons [symmetric] by simp
  then have "String_replace (c # cs) pattern replacement =
      replacement @ drop (length pattern) (c # cs)"
    by simp
  then show ?thesis
    unfolding Cons [symmetric] by simp
qed

lemma String_replace_first:
  "c \<notin> set before \<Longrightarrow>
   String_replace (before @ (c # pattern) @ rest) (c # pattern) replacement =
     before @ replacement @ rest"
proof (induction before)
  case Nil
  show ?case
    using String_replace_prefix [of "c # pattern" rest replacement] by simp
next
  case (Cons x xs)
  then have "x \<noteq> c" by auto
  then have "\<not> prefix (c # pattern) (x # xs @ (c # pattern) @ rest)"
    by simp
  then have "String_replace (x # xs @ (c # pattern) @ rest) (c # pattern) replacement =
      x # String_replace (xs @ (c # pattern) @ rest) (c # pattern) replacement"
    by (simp only: String_replace.simps if_False)
  with Cons show ?case by simp
qed

lemma String_replace_absent:
  "\<not> sublist pattern s \<Longrightarrow> String_replace s pattern replacement = s"
proof (induction s)
  case Nil
  then show ?case by simp
next
  case (Cons c cs)
  from Cons.prems have np: "\<not> prefix pattern (c # cs)" and ns: "\<not> sublist pattern cs"
    by (simp_all add: sublist_Cons_right)
  from ns have "String_replace cs pattern replacement = cs"
    by (rule Cons.IH)
  with np show ?case
    by (simp only: String_replace.simps if_False)
qed

section \<open>Properties of the hex digest\<close>

lemma hex_digits_distinct: "distinct (js ''0123456789abcdef'')"
  by (simp add: js_def)

lemma hex_digit_inj:
  "d < 16 \<Longrightarrow> e < 16 \<Longrightarrow> hex_digit d = hex_digit e \<longleftrightarrow> d = e"
  unfolding hex_digit_def
  by (rule nth_eq_iff_index_eq [OF hex_digits_distinct]) (simp_all add: js_def)

lemma hex_digit_in_digits: "d < 16 \<Longrightarrow> hex_digit d \<in> set (js ''0123456789abcdef'')"
  unfolding hex_digit_def by (rule nth_mem) (simp add: js_def)

lemma hex_of_byte:
  "padStart (toString16 (unat (b :: byte))) 2 (js ''0'') =
     [hex_digit (unat b div 16), hex_digit (unat b mod 16)]"
proof -
  have bound: "unat b < 256"
    using unsigned_less [of b] by simp
  show ?thesis
  proof (cases "unat b < 16")
    case True
    then have "toString16 (unat b) = [hex_digit (unat b)]"
      by (simp add: toString16.simps)
    moreover have "js ''0'' = [hex_digit 0]"
      by (simp add: js_def hex_digit_def)
    ultimately show ?thesis
      using True by (simp add: padStart_def)
  next
    case False
    from bound have "unat b div 16 < 16" by simp
    then have "toString16 (unat b div 16) = [hex_digit (unat b div 16)]"
      by (simp add: toString16.simps)
    with False have "toString16 (unat b) = [hex_digit (unat b div 16), hex_digit (unat b mod 16)]"
      by (subst toString16.simps) simp
    then show ?thesis
      by (simp add: padStart_def)
  qed
qed

lemma toHex_Nil: "toHex [] = []"
  by (simp add: toHex_def)

lemma toHex_Cons:
  "toHex (b # bs) = hex_digit (unat b div 16) # hex_digit (unat b mod 16) # toHex bs"
  by (simp add: toHex_def hex_of_byte)

lemma hex_of_byte_inj:
  assumes "hex_digit (unat (b :: byte) div 16) = hex_digit (unat (c :: byte) div 16)"
    and "hex_digit (unat b mod 16) = hex_digit (unat c mod 16)"
  shows "b = c"
proof -
  have "unat b < 256" "unat c < 256"
    using unsigned_less [of b] unsigned_less [of c] by simp_all
  then have "unat b div 16 < 16" "unat c div 16 < 16" by simp_all
  with assms(1) have hi: "unat b div 16 = unat c div 16"
    by (simp add: hex_digit_inj)
  from assms(2) have lo: "unat b mod 16 = unat c mod 16"
    by (simp add: hex_digit_inj)
  have "unat b = 16 * (unat b div 16) + unat b mod 16" by simp
  also have "\<dots> = 16 * (unat c div 16) + unat c mod 16" by (simp only: hi lo)
  also have "\<dots> = unat c" by simp
  finally show ?thesis by (simp add: word_unat_eq_iff)
qed

lemma toHex_inj: "toHex bs = toHex cs \<longleftrightarrow> bs = cs"
proof (induction bs arbitrary: cs)
  case Nil
  then show ?case by (cases cs) (simp_all add: toHex_Nil toHex_Cons)
next
  case (Cons b bs)
  show ?case
  proof (cases cs)
    case Nil
    then show ?thesis by (simp add: toHex_Nil toHex_Cons)
  next
    case (Cons c cs')
    with Cons.IH [of cs'] show ?thesis
      by (auto simp: toHex_Cons dest: hex_of_byte_inj)
  qed
qed

lemma toHex_digits: "set (toHex bs) \<subseteq> set (js ''0123456789abcdef'')"
proof (induction bs)
  case Nil
  then show ?case by (simp add: toHex_Nil)
next
  case (Cons b bs)
  have "unat b < 256"
    using unsigned_less [of b] by simp
  then have "unat b div 16 < 16" by simp
  then have "hex_digit (unat b div 16) \<in> set (js ''0123456789abcdef'')"
    by (rule hex_digit_in_digits)
  moreover have "hex_digit (unat b mod 16) \<in> set (js ''0123456789abcdef'')"
    by (rule hex_digit_in_digits) simp
  ultimately show ?case
    using Cons.IH by (simp add: toHex_Cons)
qed

lemma toHex_no_s: "115 \<notin> set (toHex bs)"
proof -
  have "(115 :: code_unit) \<notin> set (js ''0123456789abcdef'')"
    by (simp add: js_def)
  with toHex_digits [of bs] show ?thesis by blast
qed

lemma toHex_length: "length (toHex bs) = 2 * length bs"
  by (induction bs) (simp_all add: toHex_Nil toHex_Cons)

section \<open>Properties of verifySignature\<close>

lemma verifySignature_no_secret:
  "verifySignature plat payload signature [] =
     (False, [ConsoleError (js ''GITHUB_WEBHOOK_SECRET is not configured'')])"
  by (simp add: verifySignature_def)

lemma verifySignature_secret:
  "secret \<noteq> [] \<Longrightarrow>
   verifySignature plat payload signature secret =
     (toHex (hmac_sha256 plat (TextEncoder_encode plat secret) (TextEncoder_encode plat payload))
        = String_replace signature (js ''sha256='') [], [])"
  by (simp add: verifySignature_def Let_def timingSafeEqual_iff)

lemma verifySignature_log:
  "fst (verifySignature plat payload signature secret) \<Longrightarrow>
   verifySignature plat payload signature secret = (True, [])"
  by (cases "secret = []") (simp_all add: verifySignature_no_secret verifySignature_secret)

lemma signatureHash_generated:
  "String_replace (generateSignature plat payload secret) (js ''sha256='') [] =
     toHex (hmac_sha256 plat (TextEncoder_encode plat secret) (TextEncoder_encode plat payload))"
  by (simp add: generateSignature_def Let_def String_replace_prefix)

lemma verifySignature_generated:
  "fst (verifySignature plat B1 (generateSignature plat B2 secret) secret) \<longleftrightarrow>
   secret \<noteq> [] \<and>
   hmac_sha256 plat (TextEncoder_encode plat secret) (TextEncoder_encode plat B1) =
   hmac_sha256 plat (TextEncoder_encode plat secret) (TextEncoder_encode plat B2)"
  by (cases "secret = []")
    (simp_all add: verifySignature_no_secret verifySignature_secret signatureHash_generated
      toHex_inj)

lemma signatureHash_interior:
  "String_replace (take k (toHex bytes) @ js ''sha256='' @ drop k (toHex bytes))
     (js ''sha256='') [] = toHex bytes"
proof -
  have split: "js ''sha256='' = 115 # js ''ha256=''"
    by (simp add: js_def)
  have "115 \<notin> set (take k (toHex bytes))"
    using toHex_no_s [of bytes] by (auto dest: in_set_takeD)
  then have "String_replace (take k (toHex bytes) @ (115 # js ''ha256='') @ drop k (toHex bytes))
      (115 # js ''ha256='') [] = take k (toHex bytes) @ [] @ drop k (toHex bytes)"
    by (rule String_replace_first)
  then show ?thesis
    by (simp add: split)
qed

lemma verifySignature_interior:
  "secret \<noteq> [] \<Longrightarrow>
   fst (verifySignature plat payload
     (take k (toHex (hmac_sha256 plat (TextEncoder_encode plat secret)
                       (TextEncoder_encode plat payload)))
      @ js ''sha256=''
      @ drop k (toHex (hmac_sha256 plat (TextEncoder_encode plat secret)
                         (TextEncoder_encode plat payload))))
     secret)"
  by (simp add: verifySignature_secret signatureHash_interior)

section \<open>The test double on the bodies of the examples\<close>

lemma test_digests:
  "mock_hmac (mock_encode (js ''test-webhook-secret'')) (mock_encode (js ''{}'')) = replicate 32 117"
  "mock_hmac (mock_encode (js ''test-webhook-secret'')) (mock_encode (js ''null'')) = replicate 32 104"
  "mock_hmac (mock_encode (js ''test-webhook-secret'')) (mock_encode (js ''not json'')) = replicate 32 62"
  by (simp_all add: mock_hmac_def mock_encode_def js_def)

lemma toHex_replicate:
  "toHex (replicate n b) =
     concat (replicate n [hex_digit (unat b div 16), hex_digit (unat b mod 16)])"
  by (induction n) (simp_all add: toHex_Nil toHex_Cons)

lemma test_signatures:
  "generateSignature test_platform (js ''{}'') (js ''test-webhook-secret'') =
     js ''sha256=7575757575757575757575757575757575757575757575757575757575757575''"
  "generateSignature test_platform (js ''null'') (js ''test-webhook-secret'') =
     js ''sha256=6868686868686868686868686868686868686868686868686868686868686868''"
  "generateSignature test_platform (js ''not json'') (js ''test-webhook-secret'') =
     js ''sha256=3e3e3e3e3e3e3e3e3e3e3e3e3e3e3e3e3e3e3e3e3e3e3e3e3e3e3e3e3e3e3e3e''"
  by (simp_all add: generateSignature_def test_platform_def mock_platform_def test_digests
      toHex_replicate)
    (simp_all add: hex_digit_def js_def eval_nat_numeral)

section \<open>Signatures of a sender that holds the secret\<close>

text \<open>
  Claim C2, as amended. For every body \<open>B\<close> and every secret that is not empty,
  \<open>verifySignature\<close> accepts the header value \<open>sha256=\<close> followed by the hex digest of
  the HMAC of \<open>B\<close> under the secret. For all bodies \<open>B1\<close> and \<open>B2\<close> and every secret,
  it rejects the header value made from \<open>B2\<close> as a signature of \<open>B1\<close> exactly when
  the secret is empty or the HMAC digests of \<open>B1\<close> and \<open>B2\<close> under the secret differ.
\<close>

theorem verifySignature_of_generateSignature:
  "(secret \<noteq> [] \<longrightarrow> fst (verifySignature plat B (generateSignature plat B secret) secret)) \<and>
   (fst (verifySignature plat B1 (generateSignature plat B2 secret) secret) = False \<longleftrightarrow>
      secret = [] \<or>
      hmac_sha256 plat (TextEncoder_encode plat secret) (TextEncoder_encode plat B1) \<noteq>
      hmac_sha256 plat (TextEncoder_encode plat secret) (TextEncoder_encode plat B2))"
proof (cases "secret = []")
  case True
  then show ?thesis
    by (simp add: verifySignature_no_secret)
next
  case False
  have stripped: "String_replace (generateSignature plat B' secret) (js ''sha256='') [] =
      toHex (hmac_sha256 plat (TextEncoder_encode plat secret) (TextEncoder_encode plat B'))"
    for B'
    by (rule signatureHash_generated)
  from False have own: "fst (verifySignature plat B (generateSignature plat B secret) secret)"
    by (simp add: verifySignature_secret stripped)
  from False have other:
    "fst (verifySignature plat B1 (generateSignature plat B2 secret) secret) \<longleftrightarrow>
     hmac_sha256 plat (TextEncoder_encode plat secret) (TextEncoder_encode plat B1) =
     hmac_sha256 plat (TextEncoder_encode plat secret) (TextEncoder_encode plat B2)"
    by (simp add: verifySignature_secret stripped toHex_inj)
  from False own other show ?thesis
    by simp
qed

theorem verifySignature_of_generateSignature_witness:
  "js ''test-webhook-secret'' \<noteq> [] \<and>
   fst (verifySignature test_platform (js ''{}'')
          (generateSignature test_platform (js ''{}'') (js ''test-webhook-secret''))
          (js ''test-webhook-secret'')) \<and>
   fst (verifySignature test_platform (js ''{}'')
          (generateSignature test_platform (js ''null'') (js ''test-webhook-secret''))
          (js ''test-webhook-secret'')) = False"
  using verifySignature_of_generateSignature
    [of "js ''test-webhook-secret''" test_platform "js ''{}''" "js ''{}''" "js ''null''"]
  by (simp add: test_platform_def mock_platform_def test_digests) (simp add: js_def)

text \<open>
  With the empty secret, the signature that \<open>generateSignature\<close> makes for a body is
  rejected for that very body.
\<close>

theorem verifySignature_of_generateSignature_empty_secret:
  "fst (verifySignature test_platform (js ''{}'')
          (generateSignature test_platform (js ''{}'') []) []) = False"
  by (simp add: verifySignature_no_secret)

section \<open>The stages of handle\<close>

lemma handle_not_POST:
  "rq_method req \<noteq> js ''POST'' \<Longrightarrow> handle plat req env = (Inr (Response (js ''ok'') 200), [])"
  by (simp add: handle_def)

lemma handle_no_event:
  "rq_method req = js ''POST'' \<Longrightarrow>
   rq_headers req (js ''x-github-event'') = None \<or> rq_headers req (js ''x-github-event'') = Some [] \<Longrightarrow>
   handle plat req env = (Inr (Response (js ''missing x-github-event header'') 400), [])"
  by (auto simp: handle_def)

lemma handle_no_signature:
  "rq_method req = js ''POST'' \<Longrightarrow>
   rq_headers req (js ''x-github-event'') = Some event \<Longrightarrow> event \<noteq> [] \<Longrightarrow>
   rq_headers req (js ''x-hub-signature-256'') = None \<or>
   rq_headers req (js ''x-hub-signature-256'') = Some [] \<Longrightarrow>
   handle plat req env = (Inr (Response (js ''missing x-hub-signature-256 header'') 401), [])"
  by (auto simp: handle_def)

lemma handle_invalid:
  "rq_method req = js ''POST'' \<Longrightarrow>
   rq_headers req (js ''x-github-event'') = Some event \<Longrightarrow> event \<noteq> [] \<Longrightarrow>
   rq_headers req (js ''x-hub-signature-256'') = Some signature \<Longrightarrow> signature \<noteq> [] \<Longrightarrow>
   \<not> fst (verifySignature plat (rq_text req) signature (GITHUB_WEBHOOK_SECRET env)) \<Longrightarrow>
   handle plat req env =
     (Inr (Response (js ''invalid signature'') 401),
      snd (verifySignature plat (rq_text req) signature (GITHUB_WEBHOOK_SECRET env)))"
  by (cases "verifySignature plat (rq_text req) signature (GITHUB_WEBHOOK_SECRET env)")
    (simp add: handle_def Let_def)

lemma handle_verified:
  "rq_method req = js ''POST'' \<Longrightarrow>
   rq_headers req (js ''x-github-event'') = Some event \<Longrightarrow> event \<noteq> [] \<Longrightarrow>
   rq_headers req (js ''x-hub-signature-256'') = Some signature \<Longrightarrow> signature \<noteq> [] \<Longrightarrow>
   fst (verifySignature plat (rq_text req) signature (GITHUB_WEBHOOK_SECRET env)) \<Longrightarrow>
   handle plat req env =
     (case JSON_parse plat (rq_text req) of
        None \<Rightarrow> (Inl SyntaxError, [JsonParse (rq_text req)])
      | Some payload \<Rightarrow>
          if event \<notin> set [js ''installation'', js ''installation_repositories'']
          then (Inr (Response (js ''event ignored'') 200), [JsonParse (rq_text req)])
          else if AUTOMATION_REPO_TRIGGER_TOKEN env = []
          then (Inr (Response (js ''missing AUTOMATION_REPO_TRIGGER_TOKEN'') 500),
                [JsonParse (rq_text req)])
          else
            (case fetch plat (dispatch_call plat (AUTOMATION_REPO_TRIGGER_TOKEN env) event payload) of
               None \<Rightarrow>
                 (Inl TypeError,
                  [JsonParse (rq_text req),
                   Fetch (dispatch_call plat (AUTOMATION_REPO_TRIGGER_TOKEN env) event payload)])
             | Some resp \<Rightarrow>
                 if \<not> ds_ok resp
                 then
                   (case ds_text resp of
                      None \<Rightarrow>
                        (Inl TextRejected,
                         [JsonParse (rq_text req),
                          Fetch (dispatch_call plat (AUTOMATION_REPO_TRIGGER_TOKEN env) event
                                   payload)])
                    | Some errorText \<Rightarrow>
                        (Inr (Response (js ''dispatch failed: '' @ toString10 (ds_status resp))
                                500),
                         [JsonParse (rq_text req),
                          Fetch (dispatch_call plat (AUTOMATION_REPO_TRIGGER_TOKEN env) event
                                   payload),
                          ConsoleError (js ''GitHub API error: '' @ toString10 (ds_status resp)
                                        @ js '' - '' @ errorText)]))
                 else (Inr (Response (js ''dispatched: '' @ toString10 (ds_status resp)) 200),
                       [JsonParse (rq_text req),
                        Fetch (dispatch_call plat (AUTOMATION_REPO_TRIGGER_TOKEN env) event payload)])))"
proof -
  assume a: "rq_method req = js ''POST''"
    "rq_headers req (js ''x-github-event'') = Some event" "event \<noteq> []"
    "rq_headers req (js ''x-hub-signature-256'') = Some signature" "signature \<noteq> []"
  assume "fst (verifySignature plat (rq_text req) signature (GITHUB_WEBHOOK_SECRET env))"
  then have v: "verifySignature plat (rq_text req) signature (GITHUB_WEBHOOK_SECRET env) = (True, [])"
    by (rule verifySignature_log)
  show ?thesis
    by (simp add: handle_def a v Let_def split: option.split)
qed

lemma test_request_sel:
  "rq_method (test_request event signature text) = js ''POST''"
  "rq_headers (test_request event signature text) (js ''x-github-event'') = Some event"
  "rq_headers (test_request event signature text) (js ''x-hub-signature-256'') = Some signature"
  "rq_text (test_request event signature text) = text"
  by (simp_all add: test_request_def js_def)

lemma test_env_sel:
  "AUTOMATION_REPO_TRIGGER_TOKEN test_env = js ''test-token-123''"
  "GITHUB_WEBHOOK_SECRET test_env = js ''test-webhook-secret''"
  by (simp_all add: test_env_def)

lemma test_valid:
  "fst (verifySignature test_platform (js ''{}'')
     (js ''sha256=7575757575757575757575757575757575757575757575757575757575757575'')
     (js ''test-webhook-secret''))"
  "fst (verifySignature test_platform (js ''not json'')
     (js ''sha256=3e3e3e3e3e3e3e3e3e3e3e3e3e3e3e3e3e3e3e3e3e3e3e3e3e3e3e3e3e3e3e3e'')
     (js ''test-webhook-secret''))"
  "\<not> fst (verifySignature test_platform (js ''not json'')
     (js ''sha256=7575757575757575757575757575757575757575757575757575757575757575'')
     (js ''test-webhook-secret''))"
proof -
  have secret: "js ''test-webhook-secret'' \<noteq> []"
    by (simp add: js_def)
  show "fst (verifySignature test_platform (js ''{}'')
     (js ''sha256=7575757575757575757575757575757575757575757575757575757575757575'')
     (js ''test-webhook-secret''))"
    unfolding test_signatures(1) [symmetric]
    by (simp add: verifySignature_generated secret)
  show "fst (verifySignature test_platform (js ''not json'')
     (js ''sha256=3e3e3e3e3e3e3e3e3e3e3e3e3e3e3e3e3e3e3e3e3e3e3e3e3e3e3e3e3e3e3e3e'')
     (js ''test-webhook-secret''))"
    unfolding test_signatures(3) [symmetric]
    by (simp add: verifySignature_generated secret)
  show "\<not> fst (verifySignature test_platform (js ''not json'')
     (js ''sha256=7575757575757575757575757575757575757575757575757575757575757575'')
     (js ''test-webhook-secret''))"
    unfolding test_signatures(1) [symmetric]
    by (simp add: verifySignature_generated secret test_platform_def mock_platform_def
        test_digests)
qed

lemma test_nonempty:
  "js ''installation'' \<noteq> []" "js ''push'' \<noteq> []"
  "js ''sha256=7575757575757575757575757575757575757575757575757575757575757575'' \<noteq> []"
  "js ''sha256=3e3e3e3e3e3e3e3e3e3e3e3e3e3e3e3e3e3e3e3e3e3e3e3e3e3e3e3e3e3e3e3e'' \<noteq> []"
  "js ''test-token-123'' \<noteq> []" "js ''test-webhook-secret'' \<noteq> []"
  by (simp_all add: js_def)

lemma test_events:
  "js ''installation'' \<in> set [js ''installation'', js ''installation_repositories'']"
  "js ''push'' \<notin> set [js ''installation'', js ''installation_repositories'']"
  by (simp_all add: js_def)

lemma test_parse:
  "JSON_parse test_platform (js ''{}'') = Some (JObject [])"
  "JSON_parse test_platform (js ''not json'') = None"
  by (simp_all add: test_platform_def mock_platform_def mock_parse_def js_def)

section \<open>The prefix of the signature header\<close>

text \<open>
  The digest that is compared is the header value with the first occurrence of
  \<open>sha256=\<close> taken out. A header value that starts with \<open>sha256=\<close> loses this
  prefix (\<open>String_replace_prefix\<close>, \<open>signatureHash_generated\<close>), and a header value
  in which \<open>sha256=\<close> does not occur is compared as it is (\<open>String_replace_absent\<close>).
  A header value that has \<open>sha256=\<close> after its start loses it all the same
  (\<open>signatureHash_interior\<close>, \<open>verifySignature_interior\<close>).

  Claim C4 says that every header value that does not start with \<open>sha256=\<close> is compared
  unchanged. The header value below does not start with \<open>sha256=\<close> and is not the
  computed hex digest, and \<open>verifySignature\<close> accepts it.
\<close>

theorem signature_prefix_inside_header:
  "\<not> prefix (js ''sha256='')
       (js ''75sha256=75757575757575757575757575757575757575757575757575757575757575'') \<and>
   toHex (hmac_sha256 test_platform (TextEncoder_encode test_platform (js ''test-webhook-secret''))
            (TextEncoder_encode test_platform (js ''{}''))) \<noteq>
     js ''75sha256=75757575757575757575757575757575757575757575757575757575757575'' \<and>
   fst (verifySignature test_platform (js ''{}'')
          (js ''75sha256=75757575757575757575757575757575757575757575757575757575757575'')
          (js ''test-webhook-secret''))"
proof (intro conjI)
  show "\<not> prefix (js ''sha256='')
       (js ''75sha256=75757575757575757575757575757575757575757575757575757575757575'')"
    by (simp add: js_def)
  have digest: "toHex (hmac_sha256 test_platform
       (TextEncoder_encode test_platform (js ''test-webhook-secret''))
       (TextEncoder_encode test_platform (js ''{}''))) =
     js ''7575757575757575757575757575757575757575757575757575757575757575''"
    by (simp add: test_platform_def mock_platform_def test_digests toHex_replicate)
      (simp add: hex_digit_def js_def eval_nat_numeral)
  show "toHex (hmac_sha256 test_platform
       (TextEncoder_encode test_platform (js ''test-webhook-secret''))
       (TextEncoder_encode test_platform (js ''{}''))) \<noteq>
     js ''75sha256=75757575757575757575757575757575757575757575757575757575757575''"
    unfolding digest by (simp add: js_def)
  have "String_replace
      (js ''75sha256=75757575757575757575757575757575757575757575757575757575757575'')
      (js ''sha256='') [] =
    js ''7575757575757575757575757575757575757575757575757575757575757575''"
    by (simp add: js_def)
  then show "fst (verifySignature test_platform (js ''{}'')
          (js ''75sha256=75757575757575757575757575757575757575757575757575757575757575'')
          (js ''test-webhook-secret''))"
    by (simp add: verifySignature_secret test_nonempty digest)
qed

section \<open>The empty secret\<close>




section \<open>The empty signature header\<close>




section \<open>Events that are ignored\<close>

text \<open>
  Claim C6, as amended. For every POST request with a valid signature (the signature
  header is not empty and \<open>verifySignature\<close> returns true) whose body \<open>JSON.parse\<close>
  accepts, if the value of the \<open>x-github-event\<close> header is not empty and is neither
  \<open>installation\<close> nor \<open>installation_repositories\<close>, then the response is 200 with
  the body \<open>event ignored\<close>, and \<open>fetch\<close> is not called.
\<close>

theorem event_ignored:
  assumes "rq_method req = js ''POST''"
    and "rq_headers req (js ''x-github-event'') = Some event" and "event \<noteq> []"
    and "rq_headers req (js ''x-hub-signature-256'') = Some signature" and "signature \<noteq> []"
    and "fst (verifySignature plat (rq_text req) signature (GITHUB_WEBHOOK_SECRET env))"
    and "JSON_parse plat (rq_text req) = Some payload"
    and "event \<notin> {js ''installation'', js ''installation_repositories''}"
  shows "fst (handle plat req env) = Inr (Response (js ''event ignored'') 200) \<and>
         filter is_Fetch (snd (handle plat req env)) = []"
  using assms(7,8) by (simp add: handle_verified [OF assms(1-6)])

theorem event_ignored_witness:
  "fst (handle test_platform
     (test_request (js ''push'')
        (js ''sha256=7575757575757575757575757575757575757575757575757575757575757575'')
        (js ''{}''))
     test_env) = Inr \<lparr>status = 200, body = js ''event ignored''\<rparr> \<and>
   filter is_Fetch (snd (handle test_platform
     (test_request (js ''push'')
        (js ''sha256=7575757575757575757575757575757575757575757575757575757575757575'')
        (js ''{}''))
     test_env)) = []"
proof -
  have valid: "fst (verifySignature test_platform
      (rq_text (test_request (js ''push'')
        (js ''sha256=7575757575757575757575757575757575757575757575757575757575757575'')
        (js ''{}'')))
      (js ''sha256=7575757575757575757575757575757575757575757575757575757575757575'')
      (GITHUB_WEBHOOK_SECRET test_env))"
    by (simp add: test_request_sel test_env_sel test_valid)
  have parsed: "JSON_parse test_platform
      (rq_text (test_request (js ''push'')
        (js ''sha256=7575757575757575757575757575757575757575757575757575757575757575'')
        (js ''{}''))) = Some (JObject [])"
    by (simp add: test_request_sel test_parse)
  have other: "js ''push'' \<notin> {js ''installation'', js ''installation_repositories''}"
    using test_events(2) by simp
  show ?thesis
    using event_ignored [OF test_request_sel(1) test_request_sel(2) test_nonempty(2)
      test_request_sel(3) test_nonempty(3) valid parsed other]
    by (simp add: Response_def)
qed

text \<open>
  Two requests with a valid signature and an event outside the recognized set that are
  not answered with \<open>event ignored\<close>: the body \<open>not json\<close> makes \<open>JSON.parse\<close>
  throw before the event is looked at, and the empty string as the event is answered
  with 400.
\<close>

theorem event_ignored_counterexample:
  "fst (verifySignature test_platform (js ''not json'')
          (js ''sha256=3e3e3e3e3e3e3e3e3e3e3e3e3e3e3e3e3e3e3e3e3e3e3e3e3e3e3e3e3e3e3e3e'')
          (GITHUB_WEBHOOK_SECRET test_env)) \<and>
   js ''push'' \<notin> {js ''installation'', js ''installation_repositories''} \<and>
   handle test_platform
     (test_request (js ''push'')
        (js ''sha256=3e3e3e3e3e3e3e3e3e3e3e3e3e3e3e3e3e3e3e3e3e3e3e3e3e3e3e3e3e3e3e3e'')
        (js ''not json''))
     test_env =
   (Inl SyntaxError, [JsonParse (js ''not json'')]) \<and>
   fst (verifySignature test_platform (js ''{}'')
          (js ''sha256=7575757575757575757575757575757575757575757575757575757575757575'')
          (GITHUB_WEBHOOK_SECRET test_env)) \<and>
   [] \<notin> {js ''installation'', js ''installation_repositories''} \<and>
   handle test_platform
     (test_request []
        (js ''sha256=7575757575757575757575757575757575757575757575757575757575757575'')
        (js ''{}''))
     test_env =
   (Inr \<lparr>status = 400, body = js ''missing x-github-event header''\<rparr>, [])"
proof (intro conjI)
  show "handle test_platform
     (test_request (js ''push'')
        (js ''sha256=3e3e3e3e3e3e3e3e3e3e3e3e3e3e3e3e3e3e3e3e3e3e3e3e3e3e3e3e3e3e3e3e'')
        (js ''not json''))
     test_env =
   (Inl SyntaxError, [JsonParse (js ''not json'')])"
    by (simp add: handle_verified [OF test_request_sel(1) test_request_sel(2) test_nonempty(2)
          test_request_sel(3) test_nonempty(4)]
        test_request_sel test_env_sel test_valid test_parse)
  show "handle test_platform
     (test_request []
        (js ''sha256=7575757575757575757575757575757575757575757575757575757575757575'')
        (js ''{}''))
     test_env =
   (Inr \<lparr>status = 400, body = js ''missing x-github-event header''\<rparr>, [])"
    by (simp add: handle_no_event test_request_sel Response_def)
qed (simp_all add: test_env_sel test_valid, simp_all add: js_def)

section \<open>Forwarding\<close>

lemma mock_verifySignature:
  "verifySignature (mock_platform answer) payload signature secret =
   verifySignature test_platform payload signature secret"
  by (simp add: verifySignature_def test_platform_def mock_platform_def)

lemma mock_parse_stringify:
  "JSON_parse (mock_platform answer) = mock_parse"
  "JSON_stringify (mock_platform answer) = mock_stringify"
  "fetch (mock_platform answer) call = answer"
  by (simp_all add: mock_platform_def)

lemma test_recognized:
  "js ''installation'' \<in> {js ''installation'', js ''installation_repositories''}"
  by simp

lemma toString10_examples:
  "toString10 204 = js ''204''" "toString10 401 = js ''401''"
  by (simp_all add: toString10.simps js_def)

lemma test_authenticated:
  "fst (verifySignature (mock_platform answer)
      (rq_text (test_request event
        (js ''sha256=7575757575757575757575757575757575757575757575757575757575757575'')
        (js ''{}'')))
      (js ''sha256=7575757575757575757575757575757575757575757575757575757575757575'')
      (GITHUB_WEBHOOK_SECRET test_env))"
  "fst (verifySignature test_platform
      (rq_text (test_request event
        (js ''sha256=7575757575757575757575757575757575757575757575757575757575757575'')
        (js ''{}'')))
      (js ''sha256=7575757575757575757575757575757575757575757575757575757575757575'')
      (GITHUB_WEBHOOK_SECRET test_env))"
  "fst (verifySignature test_platform
      (rq_text (test_request event
        (js ''sha256=7575757575757575757575757575757575757575757575757575757575757575'')
        (js ''{}'')))
      (js ''sha256=7575757575757575757575757575757575757575757575757575757575757575'')
      (GITHUB_WEBHOOK_SECRET (test_env\<lparr>AUTOMATION_REPO_TRIGGER_TOKEN := []\<rparr>)))"
  by (simp_all add: mock_verifySignature test_request_sel test_env_sel test_valid)

lemma test_parsed:
  "JSON_parse (mock_platform answer)
      (rq_text (test_request event signature (js ''{}''))) = Some (JObject [])"
  "JSON_parse test_platform
      (rq_text (test_request event signature (js ''{}''))) = Some (JObject [])"
  by (simp_all add: test_platform_def mock_parse_stringify test_request_sel mock_parse_def js_def)

lemma test_token:
  "AUTOMATION_REPO_TRIGGER_TOKEN test_env \<noteq> []"
  "AUTOMATION_REPO_TRIGGER_TOKEN (test_env\<lparr>AUTOMATION_REPO_TRIGGER_TOKEN := []\<rparr>) = []"
  by (simp_all add: test_env_sel test_nonempty)

text \<open>
  Claim C7. For every POST request with a recognized event type, a valid signature (the
  signature header is not empty and \<open>verifySignature\<close> returns true), a body that
  \<open>JSON.parse\<close> accepts and a trigger token that is not empty, \<open>fetch\<close> is called
  once, with the method POST, and the body of the call is \<open>JSON.stringify\<close> of the
  object with \<open>event_type\<close> \<open>leaderboard-bot-installed\<close> and \<open>client_payload\<close>
  the object with \<open>github_event\<close> the value of the \<open>x-github-event\<close> header and
  \<open>payload\<close> the parsed body as it is.
\<close>

theorem dispatch_payload:
  assumes "rq_method req = js ''POST''"
    and "rq_headers req (js ''x-github-event'') = Some event"
    and "event \<in> {js ''installation'', js ''installation_repositories''}"
    and "rq_headers req (js ''x-hub-signature-256'') = Some signature" and "signature \<noteq> []"
    and "fst (verifySignature plat (rq_text req) signature (GITHUB_WEBHOOK_SECRET env))"
    and "JSON_parse plat (rq_text req) = Some payload"
    and "AUTOMATION_REPO_TRIGGER_TOKEN env \<noteq> []"
  shows "filter is_Fetch (snd (handle plat req env)) =
           [Fetch (dispatch_call plat (AUTOMATION_REPO_TRIGGER_TOKEN env) event payload)] \<and>
         ob_method (dispatch_call plat (AUTOMATION_REPO_TRIGGER_TOKEN env) event payload) =
           js ''POST'' \<and>
         ob_body (dispatch_call plat (AUTOMATION_REPO_TRIGGER_TOKEN env) event payload) =
           JSON_stringify plat
             (JObject
               [(js ''event_type'', JString (js ''leaderboard-bot-installed'')),
                (js ''client_payload'',
                   JObject [(js ''github_event'', JString event), (js ''payload'', payload)])])"
proof -
  from assms(3) have ne: "event \<noteq> []"
    by (auto simp: js_def)
  have "filter is_Fetch (snd (handle plat req env)) =
      [Fetch (dispatch_call plat (AUTOMATION_REPO_TRIGGER_TOKEN env) event payload)]"
    using assms(3,7,8)
    by (simp add: handle_verified [OF assms(1,2) ne assms(4,5,6)] split: option.split)
  then show ?thesis
    by (simp add: dispatch_call_def dispatchBody_def)
qed

theorem dispatch_payload_witness:
  "filter is_Fetch (snd (handle test_platform
     (test_request (js ''installation'')
        (js ''sha256=7575757575757575757575757575757575757575757575757575757575757575'')
        (js ''{}''))
     test_env)) =
     [Fetch (dispatch_call test_platform (js ''test-token-123'') (js ''installation'') (JObject []))] \<and>
   ob_body (dispatch_call test_platform (js ''test-token-123'') (js ''installation'') (JObject [])) =
     JSON_stringify test_platform
       (JObject
         [(js ''event_type'', JString (js ''leaderboard-bot-installed'')),
          (js ''client_payload'',
             JObject [(js ''github_event'', JString (js ''installation'')),
                      (js ''payload'', JObject [])])])"
  using dispatch_payload [OF test_request_sel(1) test_request_sel(2) test_recognized
      test_request_sel(3) test_nonempty(3) test_authenticated(2) test_parsed(2) test_token(1)]
  by (simp add: test_env_sel)

text \<open>
  Claim C8, as amended. For every such request \<open>fetch\<close> is called exactly once,
  whatever it answers. When the status of the answer is in the range 200 to 299, the
  response is 200 with the body \<open>dispatched: \<close> and the status, and nothing is
  reported. When the status is outside this range and the body of the answer can be read,
  the response is 500 with the body \<open>dispatch failed: \<close> and the status, and one
  report with the status and the text of the answer goes to \<open>console.error\<close>. (When
  \<open>fetch\<close> rejects, or the status is outside the range and \<open>resp.text()\<close> rejects,
  the rejection is the outcome, after the one call, with nothing reported.)
\<close>

theorem dispatch_once:
  assumes "rq_method req = js ''POST''"
    and "rq_headers req (js ''x-github-event'') = Some event"
    and "event \<in> {js ''installation'', js ''installation_repositories''}"
    and "rq_headers req (js ''x-hub-signature-256'') = Some signature" and "signature \<noteq> []"
    and "fst (verifySignature plat (rq_text req) signature (GITHUB_WEBHOOK_SECRET env))"
    and "JSON_parse plat (rq_text req) = Some payload"
    and "AUTOMATION_REPO_TRIGGER_TOKEN env \<noteq> []"
  shows "length (filter is_Fetch (snd (handle plat req env))) = 1 \<and>
         (case fetch plat (dispatch_call plat (AUTOMATION_REPO_TRIGGER_TOKEN env) event payload) of
            None \<Rightarrow>
              fst (handle plat req env) = Inl TypeError \<and>
              filter is_ConsoleError (snd (handle plat req env)) = []
          | Some resp \<Rightarrow>
              if ds_ok resp
              then fst (handle plat req env) =
                     Inr (Response (js ''dispatched: '' @ toString10 (ds_status resp)) 200) \<and>
                   filter is_ConsoleError (snd (handle plat req env)) = []
              else
                (case ds_text resp of
                   None \<Rightarrow>
                     fst (handle plat req env) = Inl TextRejected \<and>
                     filter is_ConsoleError (snd (handle plat req env)) = []
                 | Some errorText \<Rightarrow>
                     fst (handle plat req env) =
                       Inr (Response (js ''dispatch failed: '' @ toString10 (ds_status resp))
                              500) \<and>
                     filter is_ConsoleError (snd (handle plat req env)) =
                       [ConsoleError (js ''GitHub API error: '' @ toString10 (ds_status resp)
                                      @ js '' - '' @ errorText)]))"
proof -
  from assms(3) have ne: "event \<noteq> []"
    by (auto simp: js_def)
  note run = handle_verified [OF assms(1,2) ne assms(4,5,6)]
  show ?thesis
  proof (cases "fetch plat (dispatch_call plat (AUTOMATION_REPO_TRIGGER_TOKEN env) event payload)")
    case None
    with assms(3,7,8) show ?thesis
      by (simp add: run)
  next
    case (Some resp)
    show ?thesis
    proof (cases "ds_ok resp")
      case True
      with Some assms(3,7,8) show ?thesis
        by (simp add: run)
    next
      case False
      with Some assms(3,7,8) show ?thesis
        by (cases "ds_text resp") (simp_all add: run)
    qed
  qed
qed

theorem dispatch_once_witness:
  "length (filter is_Fetch (snd (handle test_platform
     (test_request (js ''installation'')
        (js ''sha256=7575757575757575757575757575757575757575757575757575757575757575'')
        (js ''{}''))
     test_env))) = 1 \<and>
   fst (handle test_platform
     (test_request (js ''installation'')
        (js ''sha256=7575757575757575757575757575757575757575757575757575757575757575'')
        (js ''{}''))
     test_env) = Inr \<lparr>status = 200, body = js ''dispatched: 204''\<rparr> \<and>
   length (filter is_Fetch (snd
     (handle (mock_platform (Some \<lparr>ds_status = 401, ds_text = Some (js ''Unauthorized'')\<rparr>))
        (test_request (js ''installation'')
           (js ''sha256=7575757575757575757575757575757575757575757575757575757575757575'')
           (js ''{}''))
        test_env))) = 1 \<and>
   fst (handle (mock_platform (Some \<lparr>ds_status = 401, ds_text = Some (js ''Unauthorized'')\<rparr>))
     (test_request (js ''installation'')
        (js ''sha256=7575757575757575757575757575757575757575757575757575757575757575'')
        (js ''{}''))
     test_env) = Inr \<lparr>status = 500, body = js ''dispatch failed: 401''\<rparr> \<and>
   filter is_ConsoleError (snd
     (handle (mock_platform (Some \<lparr>ds_status = 401, ds_text = Some (js ''Unauthorized'')\<rparr>))
        (test_request (js ''installation'')
           (js ''sha256=7575757575757575757575757575757575757575757575757575757575757575'')
           (js ''{}''))
        test_env)) = [ConsoleError (js ''GitHub API error: 401 - Unauthorized'')]"
proof -
  have ok: "ds_ok \<lparr>ds_status = 204, ds_text = Some []\<rparr>"
    "\<not> ds_ok \<lparr>ds_status = 401, ds_text = Some (js ''Unauthorized'')\<rparr>"
    by (simp_all add: ds_ok_def)
  have fetched: "fetch test_platform call = Some \<lparr>ds_status = 204, ds_text = Some []\<rparr>"
    for call
    by (simp add: test_platform_def mock_parse_stringify)
  have texts: "js ''dispatched: '' @ js ''204'' = js ''dispatched: 204''"
    "js ''dispatch failed: '' @ js ''401'' = js ''dispatch failed: 401''"
    "js ''GitHub API error: '' @ js ''401'' @ js '' - '' @ js ''Unauthorized'' =
       js ''GitHub API error: 401 - Unauthorized''"
    by (simp_all add: js_def)
  note accepted = dispatch_once [OF test_request_sel(1) test_request_sel(2) test_recognized
      test_request_sel(3) test_nonempty(3) test_authenticated(2) test_parsed(2) test_token(1)]
  note refused = dispatch_once [OF test_request_sel(1) test_request_sel(2) test_recognized
      test_request_sel(3) test_nonempty(3) test_authenticated(1) test_parsed(1) test_token(1),
      of "Some \<lparr>ds_status = 401, ds_text = Some (js ''Unauthorized'')\<rparr>"]
  from accepted refused show ?thesis
    by (simp add: fetched mock_parse_stringify ok toString10_examples texts Response_def)
qed

text \<open>
  A request of this kind whose answer has the status 502 and a body that cannot be read:
  \<open>fetch\<close> is called once, and the outcome is the rejection of \<open>resp.text()\<close>, with no
  response and nothing reported.
\<close>

theorem dispatch_unreadable_answer:
  "fst (verifySignature (mock_platform (Some \<lparr>ds_status = 502, ds_text = None\<rparr>))
          (js ''{}'')
          (js ''sha256=7575757575757575757575757575757575757575757575757575757575757575'')
          (GITHUB_WEBHOOK_SECRET test_env)) \<and>
   JSON_parse (mock_platform (Some \<lparr>ds_status = 502, ds_text = None\<rparr>)) (js ''{}'') =
     Some (JObject []) \<and>
   AUTOMATION_REPO_TRIGGER_TOKEN test_env \<noteq> [] \<and>
   \<not> ds_ok \<lparr>ds_status = 502, ds_text = None\<rparr> \<and>
   handle (mock_platform (Some \<lparr>ds_status = 502, ds_text = None\<rparr>))
     (test_request (js ''installation'')
        (js ''sha256=7575757575757575757575757575757575757575757575757575757575757575'')
        (js ''{}''))
     test_env =
   (Inl TextRejected,
    [JsonParse (js ''{}''),
     Fetch (dispatch_call (mock_platform (Some \<lparr>ds_status = 502, ds_text = None\<rparr>))
              (js ''test-token-123'') (js ''installation'') (JObject []))])"
proof (intro conjI)
  show "fst (verifySignature (mock_platform (Some \<lparr>ds_status = 502, ds_text = None\<rparr>))
          (js ''{}'')
          (js ''sha256=7575757575757575757575757575757575757575757575757575757575757575'')
          (GITHUB_WEBHOOK_SECRET test_env))"
    using test_authenticated(1) [of "Some \<lparr>ds_status = 502, ds_text = None\<rparr>"]
    by (simp add: test_request_sel)
  show "JSON_parse (mock_platform (Some \<lparr>ds_status = 502, ds_text = None\<rparr>)) (js ''{}'') =
     Some (JObject [])"
    using test_parsed(1) [of "Some \<lparr>ds_status = 502, ds_text = None\<rparr>"]
    by (simp add: test_request_sel)
  show "AUTOMATION_REPO_TRIGGER_TOKEN test_env \<noteq> []"
    by (rule test_token(1))
  show "\<not> ds_ok \<lparr>ds_status = 502, ds_text = None\<rparr>"
    by (simp add: ds_ok_def)
  have unread: "\<not> ds_ok \<lparr>ds_status = 502, ds_text = None\<rparr>"
    by (simp add: ds_ok_def)
  have parsed: "JSON_parse (mock_platform (Some \<lparr>ds_status = 502, ds_text = None\<rparr>))
      (js ''{}'') = Some (JObject [])"
    using test_parsed(1) [of "Some \<lparr>ds_status = 502, ds_text = None\<rparr>"]
    by (simp add: test_request_sel)
  have answered: "fetch (mock_platform (Some \<lparr>ds_status = 502, ds_text = None\<rparr>)) call =
      Some \<lparr>ds_status = 502, ds_text = None\<rparr>" for call
    by (rule mock_parse_stringify(3))
  show "handle (mock_platform (Some \<lparr>ds_status = 502, ds_text = None\<rparr>))
     (test_request (js ''installation'')
        (js ''sha256=7575757575757575757575757575757575757575757575757575757575757575'')
        (js ''{}''))
     test_env =
   (Inl TextRejected,
    [JsonParse (js ''{}''),
     Fetch (dispatch_call (mock_platform (Some \<lparr>ds_status = 502, ds_text = None\<rparr>))
              (js ''test-token-123'') (js ''installation'') (JObject []))])"
    by (simp add: handle_verified [OF test_request_sel(1) test_request_sel(2) test_nonempty(1)
          test_request_sel(3) test_nonempty(3) test_authenticated(1)]
        test_request_sel(4) test_env_sel(1) parsed answered unread test_events(1)
        test_nonempty(5))
qed

text \<open>
  Claim C9. For every POST request with a recognized event type, a valid signature and a
  body that \<open>JSON.parse\<close> accepts, if the configured trigger token is empty, then the
  response is 500 with the body \<open>missing AUTOMATION_REPO_TRIGGER_TOKEN\<close>, and
  \<open>fetch\<close> is not called.
\<close>

theorem missing_trigger_token:
  assumes "rq_method req = js ''POST''"
    and "rq_headers req (js ''x-github-event'') = Some event"
    and "event \<in> {js ''installation'', js ''installation_repositories''}"
    and "rq_headers req (js ''x-hub-signature-256'') = Some signature" and "signature \<noteq> []"
    and "fst (verifySignature plat (rq_text req) signature (GITHUB_WEBHOOK_SECRET env))"
    and "JSON_parse plat (rq_text req) = Some payload"
    and "AUTOMATION_REPO_TRIGGER_TOKEN env = []"
  shows "fst (handle plat req env) =
           Inr (Response (js ''missing AUTOMATION_REPO_TRIGGER_TOKEN'') 500) \<and>
         filter is_Fetch (snd (handle plat req env)) = []"
proof -
  from assms(3) have ne: "event \<noteq> []"
    by (auto simp: js_def)
  show ?thesis
    using assms(3,7,8)
    by (simp add: handle_verified [OF assms(1,2) ne assms(4,5,6)])
qed

theorem missing_trigger_token_witness:
  "fst (handle test_platform
     (test_request (js ''installation'')
        (js ''sha256=7575757575757575757575757575757575757575757575757575757575757575'')
        (js ''{}''))
     (test_env\<lparr>AUTOMATION_REPO_TRIGGER_TOKEN := []\<rparr>)) =
     Inr \<lparr>status = 500, body = js ''missing AUTOMATION_REPO_TRIGGER_TOKEN''\<rparr> \<and>
   filter is_Fetch (snd (handle test_platform
     (test_request (js ''installation'')
        (js ''sha256=7575757575757575757575757575757575757575757575757575757575757575'')
        (js ''{}''))
     (test_env\<lparr>AUTOMATION_REPO_TRIGGER_TOKEN := []\<rparr>))) = []"
  using missing_trigger_token [OF test_request_sel(1) test_request_sel(2) test_recognized
      test_request_sel(3) test_nonempty(3) test_authenticated(3) test_parsed(2) test_token(2)]
  by (simp add: Response_def)

section \<open>Parsing comes after verification\<close>

lemma verifySignature_JSON_parse:
  "verifySignature (plat\<lparr>JSON_parse := parse\<rparr>) payload signature secret =
   verifySignature plat payload signature secret"
  by (simp add: verifySignature_def)

lemma verifySignature_rejects_log:
  "\<not> fst (verifySignature plat payload signature secret) \<Longrightarrow>
   filter is_JsonParse (snd (verifySignature plat payload signature secret)) = []"
  by (simp add: verifySignature_def Let_def split: if_splits)

lemma handle_unauthenticated:
  assumes "\<not> authenticated plat req env"
  shows "filter is_JsonParse (snd (handle plat req env)) = []"
    and "fst (handle plat req env) \<noteq> Inl SyntaxError"
    and "handle (plat\<lparr>JSON_parse := parse\<rparr>) req env = handle plat req env"
proof -
  consider (other_method) "rq_method req \<noteq> js ''POST''"
    | (event) "rq_method req = js ''POST''"
        "rq_headers req (js ''x-github-event'') = None \<or>
         rq_headers req (js ''x-github-event'') = Some []"
    | (signature) event where "rq_method req = js ''POST''"
        "rq_headers req (js ''x-github-event'') = Some event" "event \<noteq> []"
        "rq_headers req (js ''x-hub-signature-256'') = None \<or>
         rq_headers req (js ''x-hub-signature-256'') = Some []"
    | (invalid) event signature where "rq_method req = js ''POST''"
        "rq_headers req (js ''x-github-event'') = Some event" "event \<noteq> []"
        "rq_headers req (js ''x-hub-signature-256'') = Some signature" "signature \<noteq> []"
        "\<not> fst (verifySignature plat (rq_text req) signature (GITHUB_WEBHOOK_SECRET env))"
    using assms by (auto simp: authenticated_def split: option.splits)
  then have "filter is_JsonParse (snd (handle plat req env)) = [] \<and>
      fst (handle plat req env) \<noteq> Inl SyntaxError \<and>
      handle (plat\<lparr>JSON_parse := parse\<rparr>) req env = handle plat req env"
  proof cases
    case other_method
    then show ?thesis by (simp add: handle_not_POST)
  next
    case event
    then show ?thesis by (simp add: handle_no_event)
  next
    case signature
    then show ?thesis by (simp add: handle_no_signature [where event = event])
  next
    case invalid
    then have "handle plat req env =
        (Inr (Response (js ''invalid signature'') 401),
         snd (verifySignature plat (rq_text req) signature (GITHUB_WEBHOOK_SECRET env)))"
      by (intro handle_invalid)
    moreover from invalid have "handle (plat\<lparr>JSON_parse := parse\<rparr>) req env =
        (Inr (Response (js ''invalid signature'') 401),
         snd (verifySignature plat (rq_text req) signature (GITHUB_WEBHOOK_SECRET env)))"
      using handle_invalid [of req event signature "plat\<lparr>JSON_parse := parse\<rparr>" env]
      by (simp add: verifySignature_JSON_parse)
    ultimately show ?thesis
      using invalid(6) by (simp add: verifySignature_rejects_log)
  qed
  then show "filter is_JsonParse (snd (handle plat req env)) = []"
    and "fst (handle plat req env) \<noteq> Inl SyntaxError"
    and "handle (plat\<lparr>JSON_parse := parse\<rparr>) req env = handle plat req env"
    by simp_all
qed

lemma handle_authenticated:
  assumes "authenticated plat req env"
  shows "filter is_JsonParse (snd (handle plat req env)) = [JsonParse (rq_text req)]"
    and "fst (handle plat req env) = Inl SyntaxError \<longleftrightarrow> JSON_parse plat (rq_text req) = None"
proof -
  from assms obtain event signature where a: "rq_method req = js ''POST''"
    "rq_headers req (js ''x-github-event'') = Some event" "event \<noteq> []"
    "rq_headers req (js ''x-hub-signature-256'') = Some signature" "signature \<noteq> []"
    "fst (verifySignature plat (rq_text req) signature (GITHUB_WEBHOOK_SECRET env))"
    by (auto simp: authenticated_def split: option.splits)
  note h = handle_verified [OF a]
  show "filter is_JsonParse (snd (handle plat req env)) = [JsonParse (rq_text req)]"
    by (simp add: h split: option.split)
  show "fst (handle plat req env) = Inl SyntaxError \<longleftrightarrow> JSON_parse plat (rq_text req) = None"
    by (simp add: h split: option.split)
qed

text \<open>
  Claim C10. \<open>JSON.parse\<close> is called, once and on the body, exactly when the method is
  POST, both required headers are present (and not empty) and \<open>verifySignature\<close> has
  returned true. The fault of a body that is no JSON occurs only for such requests. For
  every other request the outcome of \<open>handle\<close> does not depend on \<open>JSON.parse\<close> at
  all.
\<close>

theorem parse_only_when_authenticated:
  "filter is_JsonParse (snd (handle plat req env)) =
     (if authenticated plat req env then [JsonParse (rq_text req)] else []) \<and>
   (fst (handle plat req env) = Inl SyntaxError \<longleftrightarrow>
      authenticated plat req env \<and> JSON_parse plat (rq_text req) = None) \<and>
   (\<not> authenticated plat req env \<longrightarrow>
      handle (plat\<lparr>JSON_parse := parse\<rparr>) req env = handle plat req env)"
proof (cases "authenticated plat req env")
  case True
  then show ?thesis
    by (simp add: handle_authenticated)
next
  case False
  then show ?thesis
    by (simp add: handle_unauthenticated)
qed

theorem parse_only_when_authenticated_witness:
  "authenticated test_platform
     (test_request (js ''push'')
        (js ''sha256=3e3e3e3e3e3e3e3e3e3e3e3e3e3e3e3e3e3e3e3e3e3e3e3e3e3e3e3e3e3e3e3e'')
        (js ''not json''))
     test_env \<and>
   filter is_JsonParse (snd (handle test_platform
     (test_request (js ''push'')
        (js ''sha256=3e3e3e3e3e3e3e3e3e3e3e3e3e3e3e3e3e3e3e3e3e3e3e3e3e3e3e3e3e3e3e3e'')
        (js ''not json''))
     test_env)) = [JsonParse (js ''not json'')] \<and>
   fst (handle test_platform
     (test_request (js ''push'')
        (js ''sha256=3e3e3e3e3e3e3e3e3e3e3e3e3e3e3e3e3e3e3e3e3e3e3e3e3e3e3e3e3e3e3e3e'')
        (js ''not json''))
     test_env) = Inl SyntaxError \<and>
   \<not> authenticated test_platform
     (test_request (js ''push'')
        (js ''sha256=7575757575757575757575757575757575757575757575757575757575757575'')
        (js ''not json''))
     test_env \<and>
   filter is_JsonParse (snd (handle test_platform
     (test_request (js ''push'')
        (js ''sha256=7575757575757575757575757575757575757575757575757575757575757575'')
        (js ''not json''))
     test_env)) = [] \<and>
   fst (handle test_platform
     (test_request (js ''push'')
        (js ''sha256=7575757575757575757575757575757575757575757575757575757575757575'')
        (js ''not json''))
     test_env) \<noteq> Inl SyntaxError \<and>
   handle (test_platform\<lparr>JSON_parse := \<lambda>text. Some JNull\<rparr>)
     (test_request (js ''push'')
        (js ''sha256=7575757575757575757575757575757575757575757575757575757575757575'')
        (js ''not json''))
     test_env =
   handle test_platform
     (test_request (js ''push'')
        (js ''sha256=7575757575757575757575757575757575757575757575757575757575757575'')
        (js ''not json''))
     test_env"
proof -
  have yes: "authenticated test_platform
     (test_request (js ''push'')
        (js ''sha256=3e3e3e3e3e3e3e3e3e3e3e3e3e3e3e3e3e3e3e3e3e3e3e3e3e3e3e3e3e3e3e3e'')
        (js ''not json''))
     test_env"
    by (simp add: authenticated_def test_request_sel test_env_sel test_valid test_nonempty)
  have no: "\<not> authenticated test_platform
     (test_request (js ''push'')
        (js ''sha256=7575757575757575757575757575757575757575757575757575757575757575'')
        (js ''not json''))
     test_env"
    by (simp add: authenticated_def test_request_sel test_env_sel test_valid test_nonempty)
  show ?thesis
    using yes no
      parse_only_when_authenticated
        [of test_platform
          "test_request (js ''push'')
             (js ''sha256=3e3e3e3e3e3e3e3e3e3e3e3e3e3e3e3e3e3e3e3e3e3e3e3e3e3e3e3e3e3e3e3e'')
             (js ''not json'')"
          test_env]
      parse_only_when_authenticated
        [of test_platform
          "test_request (js ''push'')
             (js ''sha256=7575757575757575757575757575757575757575757575757575757575757575'')
             (js ''not json'')"
          test_env "\<lambda>text. Some JNull"]
    by (simp add: test_request_sel test_parse)
qed

end
